theory Spec2Isabelle
  imports Complex_Main
begin

section \<open>Fair Value Gap analysis: the data model\<close>

text \<open>
  The embedding follows \<^verbatim>\<open>actions/fvg-analysis/fvg-analysis.ts\<close>. A JavaScript
  \<^verbatim>\<open>number\<close> is modelled as a real number: comparisons and arithmetic are exact, and
  rounding of IEEE doubles, \<^verbatim>\<open>NaN\<close> and the infinities are outside the model.
\<close>

text \<open>The interface \<^verbatim>\<open>Candlestick\<close> of \<^verbatim>\<open>actions/market-data/fetch-market-data.ts\<close>.\<close>

record Candlestick =
  "open" :: real
  close :: real
  high :: real
  low :: real
  volume :: real
  time :: real

text \<open>The union of string literals \<^verbatim>\<open>"bullish" | "bearish"\<close>.\<close>

datatype FvgType = bullish | bearish

text \<open>The interface \<^verbatim>\<open>FvgAnalysisResult\<close>.\<close>

record FvgAnalysisResult =
  fvgType :: FvgType
  startTime :: real
  endTime :: real
  gapSize :: real
  volume :: real

text \<open>
  Modelled from the spec: the type \<^verbatim>\<open>ActionState<T>\<close> of
  \<^verbatim>\<open>types/server-action-types.ts\<close>, whose declaration is not among the sources. The
  spec describes the output as the event sequence "paired with a success/failure
  indicator and a human-readable message"; the object literals the function returns
  have the fields \<^verbatim>\<open>isSuccess\<close>, \<^verbatim>\<open>message\<close> and, on success only, \<^verbatim>\<open>data\<close>. An absent
  \<^verbatim>\<open>data\<close> field is \<open>None\<close>.
\<close>

record 'a ActionState =
  isSuccess :: bool
  message :: string
  data :: "'a option"

text \<open>
  What a \<^verbatim>\<open>catch\<close> clause can receive: an instance of \<^verbatim>\<open>Error\<close> with its message, or
  any other thrown value.
\<close>

datatype thrown = Error string | NonError

text \<open>The lines written by \<^verbatim>\<open>console.error\<close>, oldest first.\<close>

type_synonym console = "string list"

section \<open>The detector\<close>

text \<open>
  \<^verbatim>\<open>candlesticks[i]\<close>: an index outside the array yields \<^verbatim>\<open>undefined\<close>, here \<open>None\<close>.
\<close>

definition candle_at :: "Candlestick list \<Rightarrow> nat \<Rightarrow> Candlestick option" where
  "candle_at candlesticks i =
     (if i < length candlesticks then Some (candlesticks ! i) else None)"

text \<open>
  Reading a property of \<^verbatim>\<open>undefined\<close> throws a \<^verbatim>\<open>TypeError\<close>, which is an instance of
  \<^verbatim>\<open>Error\<close>; the wording of its message depends on the engine.
\<close>

definition undefined_read :: thrown where
  "undefined_read = Error ''Cannot read properties of undefined''"

text \<open>
  The body of the \<^verbatim>\<open>for\<close> loop for the window starting at \<open>i\<close>: it reads the three
  candles, adds up their volumes (the first property read, so the one that throws when a
  candle is \<^verbatim>\<open>undefined\<close>), and pushes a bullish and then a bearish result, each under its
  own \<^verbatim>\<open>if\<close>. It returns the extended \<^verbatim>\<open>results\<close> array.
\<close>

definition fvg_window ::
  "Candlestick list \<Rightarrow> nat \<Rightarrow> FvgAnalysisResult list \<Rightarrow> thrown + FvgAnalysisResult list" where
  "fvg_window candlesticks i results =
     (case candle_at candlesticks i of
        None \<Rightarrow> Inl undefined_read
      | Some candle1 \<Rightarrow>
     (case candle_at candlesticks (i + 1) of
        None \<Rightarrow> Inl undefined_read
      | Some candle2 \<Rightarrow>
     (case candle_at candlesticks (i + 2) of
        None \<Rightarrow> Inl undefined_read
      | Some candle3 \<Rightarrow>
       (let totalVolume =
              Candlestick.volume candle1 + Candlestick.volume candle2
                + Candlestick.volume candle3;
            results1 =
              (if low candle3 > high candle1
               then results @
                 [\<lparr>fvgType = bullish, startTime = time candle1, endTime = time candle3,
                   gapSize = low candle3 - high candle1, volume = totalVolume\<rparr>]
               else results);
            results2 =
              (if high candle3 < low candle1
               then results1 @
                 [\<lparr>fvgType = bearish, startTime = time candle1, endTime = time candle3,
                   gapSize = low candle1 - high candle3, volume = totalVolume\<rparr>]
               else results1)
        in Inr results2))))"

text \<open>
  The loop \<^verbatim>\<open>for (let i = 0; i <= candlesticks.length - 3; i++)\<close>, from the index \<open>i\<close>
  on. The bound is computed over the integers, as \<^verbatim>\<open>length - 3\<close> may be negative. An
  exception thrown by the body leaves the loop.
\<close>

function fvg_loop ::
  "Candlestick list \<Rightarrow> nat \<Rightarrow> FvgAnalysisResult list \<Rightarrow> thrown + FvgAnalysisResult list" where
  "fvg_loop candlesticks i results =
     (if int i \<le> int (length candlesticks) - 3
      then (case fvg_window candlesticks i results of
              Inl error \<Rightarrow> Inl error
            | Inr results' \<Rightarrow> fvg_loop candlesticks (i + 1) results')
      else Inr results)"
  by pat_completeness auto
termination
  by (relation "measure (\<lambda>(candlesticks, i, results). length candlesticks - i)") auto

declare fvg_loop.simps [simp del]

text \<open>
  The \<^verbatim>\<open>catch\<close> clause's message:
  \<^verbatim>\<open>error instanceof Error ? error.message : "An unknown error occurred ..."\<close>.
\<close>

definition catch_message :: "thrown \<Rightarrow> string" where
  "catch_message error =
     (case error of
        Error m \<Rightarrow> m
      | NonError \<Rightarrow> ''An unknown error occurred during FVG analysis.'')"

text \<open>
  \<^verbatim>\<open>fvgAnalysisAction\<close>: the value its promise resolves to, and the console after the
  call. Only the \<^verbatim>\<open>catch\<close> clause writes to the console.
\<close>

definition fvgAnalysisAction ::
  "Candlestick list \<Rightarrow> console \<Rightarrow> FvgAnalysisResult list ActionState \<times> console" where
  "fvgAnalysisAction candlesticks con =
     (let results = [] in
      if length candlesticks < 3
      then (\<lparr>isSuccess = True,
             message = ''Not enough data to perform FVG analysis.'',
             data = Some results\<rparr>, con)
      else (case fvg_loop candlesticks 0 results of
              Inr results' \<Rightarrow>
                (\<lparr>isSuccess = True,
                  message = ''FVG analysis completed successfully.'',
                  data = Some results'\<rparr>, con)
            | Inl error \<Rightarrow>
                (\<lparr>isSuccess = False,
                  message = catch_message error,
                  data = None\<rparr>,
                 con @ [''Error during FVG analysis: '' @ catch_message error])))"

section \<open>The specification's reading of the detector\<close>

text \<open>
  The definitions of this section follow the words of the specification, for comparison
  with the loop above: the two gap tests on the window starting at \<open>i\<close>, the events it
  emits, and the sequence of all events in the order of detection.
\<close>

definition bullish_at :: "Candlestick list \<Rightarrow> nat \<Rightarrow> bool" where
  "bullish_at cs i \<longleftrightarrow> low (cs ! (i + 2)) > high (cs ! i)"

definition bearish_at :: "Candlestick list \<Rightarrow> nat \<Rightarrow> bool" where
  "bearish_at cs i \<longleftrightarrow> high (cs ! (i + 2)) < low (cs ! i)"

definition bullish_event :: "Candlestick list \<Rightarrow> nat \<Rightarrow> FvgAnalysisResult" where
  "bullish_event cs i =
     \<lparr>fvgType = bullish, startTime = time (cs ! i), endTime = time (cs ! (i + 2)),
      gapSize = low (cs ! (i + 2)) - high (cs ! i),
      volume = Candlestick.volume (cs ! i) + Candlestick.volume (cs ! (i + 1))
                 + Candlestick.volume (cs ! (i + 2))\<rparr>"

definition bearish_event :: "Candlestick list \<Rightarrow> nat \<Rightarrow> FvgAnalysisResult" where
  "bearish_event cs i =
     \<lparr>fvgType = bearish, startTime = time (cs ! i), endTime = time (cs ! (i + 2)),
      gapSize = low (cs ! i) - high (cs ! (i + 2)),
      volume = Candlestick.volume (cs ! i) + Candlestick.volume (cs ! (i + 1))
                 + Candlestick.volume (cs ! (i + 2))\<rparr>"

definition window_events :: "Candlestick list \<Rightarrow> nat \<Rightarrow> FvgAnalysisResult list" where
  "window_events cs i =
     (if bullish_at cs i then [bullish_event cs i] else []) @
     (if bearish_at cs i then [bearish_event cs i] else [])"

definition events_from :: "Candlestick list \<Rightarrow> nat \<Rightarrow> FvgAnalysisResult list" where
  "events_from cs i = concat (map (window_events cs) [i..<length cs - 2])"

text \<open>
  The position of a window's first event in the output: the number of events that the
  windows before it emit, bullish and bearish counted separately.
\<close>

definition events_before :: "Candlestick list \<Rightarrow> nat \<Rightarrow> nat" where
  "events_before cs i =
     length (filter (bullish_at cs) [0..<i]) + length (filter (bearish_at cs) [0..<i])"

text \<open>A window qualifies when it passes at least one of the two tests.\<close>

definition qualifying_at :: "Candlestick list \<Rightarrow> nat \<Rightarrow> bool" where
  "qualifying_at cs i \<longleftrightarrow> bullish_at cs i \<or> bearish_at cs i"

text \<open>
  Two ways in which a second input may differ from a first one, both keeping the length
  and every time and volume field. In the first, only a candle that is the middle candle
  of some window (index \<open>j\<close> with \<open>1 \<le> j\<close> and \<open>j + 1 < length\<close>) may change its open,
  close, high and low. In the second, open and close may change everywhere, high and low
  only on a candle that is neither the first candle of a window (\<open>j + 2 < length\<close>) nor
  the third candle of one (\<open>2 \<le> j\<close>).
\<close>

definition middle_prices_differ :: "Candlestick list \<Rightarrow> Candlestick list \<Rightarrow> bool" where
  "middle_prices_differ xs ys \<longleftrightarrow>
     length xs = length ys \<and>
     (\<forall>j < length xs.
        time (xs ! j) = time (ys ! j) \<and>
        Candlestick.volume (xs ! j) = Candlestick.volume (ys ! j) \<and>
        (\<not> (1 \<le> j \<and> j + 1 < length xs) \<longrightarrow> xs ! j = ys ! j))"

definition unused_prices_differ :: "Candlestick list \<Rightarrow> Candlestick list \<Rightarrow> bool" where
  "unused_prices_differ xs ys \<longleftrightarrow>
     length xs = length ys \<and>
     (\<forall>j < length xs.
        time (xs ! j) = time (ys ! j) \<and>
        Candlestick.volume (xs ! j) = Candlestick.volume (ys ! j) \<and>
        (j + 2 < length xs \<or> 2 \<le> j \<longrightarrow>
           high (xs ! j) = high (ys ! j) \<and> low (xs ! j) = low (ys ! j)))"

section \<open>Sample inputs\<close>

text \<open>The inputs of the unit tests in \<^verbatim>\<open>tests/fvg-analysis.test.ts\<close>.\<close>

definition bullish_sample :: "Candlestick list" where
  "bullish_sample =
     [\<lparr>open = 90, close = 95, high = 100, low = 85, volume = 100, time = 1000\<rparr>,
      \<lparr>open = 95, close = 98, high = 102, low = 90, volume = 150, time = 2000\<rparr>,
      \<lparr>open = 102, close = 105, high = 108, low = 110, volume = 200, time = 3000\<rparr>]"

definition bearish_sample :: "Candlestick list" where
  "bearish_sample =
     [\<lparr>open = 120, close = 115, high = 125, low = 110, volume = 200, time = 1000\<rparr>,
      \<lparr>open = 115, close = 112, high = 120, low = 108, volume = 180, time = 2000\<rparr>,
      \<lparr>open = 112, close = 110, high = 105, low = 100, volume = 160, time = 3000\<rparr>]"

definition two_windows_sample :: "Candlestick list" where
  "two_windows_sample =
     [\<lparr>open = 100, close = 105, high = 110, low = 95, volume = 100, time = 1000\<rparr>,
      \<lparr>open = 105, close = 107, high = 112, low = 102, volume = 150, time = 2000\<rparr>,
      \<lparr>open = 107, close = 110, high = 115, low = 111, volume = 200, time = 3000\<rparr>,
      \<lparr>open = 110, close = 108, high = 111, low = 106, volume = 120, time = 4000\<rparr>,
      \<lparr>open = 108, close = 107, high = 109, low = 105, volume = 130, time = 5000\<rparr>,
      \<lparr>open = 107, close = 104, high = 104, low = 102, volume = 140, time = 6000\<rparr>]"

text \<open>
  A window of malformed candles (\<open>low > high\<close> in the first and the third) that passes
  both tests: \<open>5 > 1\<close> and \<open>2 < 10\<close>.
\<close>

definition degenerate_sample :: "Candlestick list" where
  "degenerate_sample =
     [\<lparr>open = 3, close = 4, high = 1, low = 10, volume = 7, time = 1000\<rparr>,
      \<lparr>open = 4, close = 4, high = 6, low = 3, volume = 8, time = 2000\<rparr>,
      \<lparr>open = 4, close = 3, high = 2, low = 5, volume = 9, time = 3000\<rparr>]"

text \<open>
  Four well-formed candles without a gap, and the same four with the high of the candle
  at index 1 lowered from 20 to 16 (and its close with it). That candle is the middle candle of the window at 0
  and the first candle of the window at 1.
\<close>

definition quiet_sample :: "Candlestick list" where
  "quiet_sample =
     [\<lparr>open = 6, close = 9, high = 10, low = 5, volume = 1, time = 1000\<rparr>,
      \<lparr>open = 16, close = 19, high = 20, low = 15, volume = 2, time = 2000\<rparr>,
      \<lparr>open = 9, close = 11, high = 12, low = 8, volume = 3, time = 3000\<rparr>,
      \<lparr>open = 19, close = 24, high = 25, low = 18, volume = 4, time = 4000\<rparr>]"

definition quiet_sample_lowered :: "Candlestick list" where
  "quiet_sample_lowered =
     [\<lparr>open = 6, close = 9, high = 10, low = 5, volume = 1, time = 1000\<rparr>,
      \<lparr>open = 16, close = 16, high = 16, low = 15, volume = 2, time = 2000\<rparr>,
      \<lparr>open = 9, close = 11, high = 12, low = 8, volume = 3, time = 3000\<rparr>,
      \<lparr>open = 19, close = 24, high = 25, low = 18, volume = 4, time = 4000\<rparr>]"

text \<open>
  The bullish test input with every price of its middle candle replaced; time and volume
  are kept.
\<close>

definition bullish_sample_middle_changed :: "Candlestick list" where
  "bullish_sample_middle_changed =
     [\<lparr>open = 90, close = 95, high = 100, low = 85, volume = 100, time = 1000\<rparr>,
      \<lparr>open = 1, close = 2, high = 300, low = 4, volume = 150, time = 2000\<rparr>,
      \<lparr>open = 102, close = 105, high = 108, low = 110, volume = 200, time = 3000\<rparr>]"

section \<open>The loop computes the specified sequence\<close>

lemma fvg_window_events:
  assumes "i + 2 < length cs"
  shows "fvg_window cs i rs = Inr (rs @ window_events cs i)"
  using assms
  by (simp add: fvg_window_def candle_at_def window_events_def bullish_at_def
      bearish_at_def bullish_event_def bearish_event_def Let_def)

lemma events_from_step:
  assumes "i + 2 < length cs"
  shows "events_from cs i = window_events cs i @ events_from cs (Suc i)"
proof -
  from assms have "i < length cs - 2" by arith
  then have "[i..<length cs - 2] = i # [Suc i..<length cs - 2]"
    by (rule upt_conv_Cons)
  then show ?thesis by (simp add: events_from_def)
qed

lemma events_from_done:
  assumes "\<not> i + 2 < length cs"
  shows "events_from cs i = []"
proof -
  from assms have "length cs - 2 \<le> i" by arith
  then show ?thesis by (simp add: events_from_def)
qed

lemma fvg_loop_events: "fvg_loop cs i rs = Inr (rs @ events_from cs i)"
proof (induction cs i rs rule: fvg_loop.induct)
  case (1 cs i rs)
  show ?case
  proof (cases "int i \<le> int (length cs) - 3")
    case True
    then have inside: "i + 2 < length cs" by arith
    have "fvg_loop cs i rs = fvg_loop cs (i + 1) (rs @ window_events cs i)"
      using True by (subst fvg_loop.simps) (simp add: fvg_window_events [OF inside])
    also have "\<dots> = Inr ((rs @ window_events cs i) @ events_from cs (i + 1))"
      using True by (intro "1.IH") (simp_all add: fvg_window_events [OF inside])
    finally show ?thesis
      by (simp add: events_from_step [OF inside])
  next
    case False
    then have "\<not> i + 2 < length cs" by arith
    then have "events_from cs i = []" by (rule events_from_done)
    with False show ?thesis by (subst fvg_loop.simps) simp
  qed
qed

lemma fvgAnalysisAction_events:
  "fvgAnalysisAction cs con =
     (\<lparr>isSuccess = True,
       message = (if length cs < 3 then ''Not enough data to perform FVG analysis.''
                  else ''FVG analysis completed successfully.''),
       data = Some (events_from cs 0)\<rparr>, con)"
proof (cases "length cs < 3")
  case True
  then have "\<not> 0 + 2 < length cs" by arith
  then have "events_from cs 0 = []" by (rule events_from_done)
  with True show ?thesis by (simp add: fvgAnalysisAction_def)
next
  case False
  then show ?thesis by (simp add: fvgAnalysisAction_def fvg_loop_events)
qed

section \<open>Positions and counts in the specified sequence\<close>

lemma events_concat_length:
  "length (concat (map (window_events cs) ws)) =
     length (filter (bullish_at cs) ws) + length (filter (bearish_at cs) ws)"
  by (induction ws) (simp_all add: window_events_def)

lemma events_concat_length_exclusive:
  assumes "\<forall>i \<in> set ws. \<not> (bullish_at cs i \<and> bearish_at cs i)"
  shows "length (concat (map (window_events cs) ws)) = length (filter (qualifying_at cs) ws)"
  using assms by (induction ws) (auto simp add: window_events_def qualifying_at_def)

lemma events_from_split:
  assumes "i + 2 < length cs"
  shows "events_from cs 0 =
           concat (map (window_events cs) [0..<i]) @ window_events cs i @ events_from cs (Suc i)"
proof -
  define k where "k = length cs - 2 - i"
  from assms have k: "length cs - 2 = i + k" and "0 < k"
    by (simp_all add: k_def)
  have upto_i: "[0..<i + k] = [0..<i] @ [i..<i + k]"
    by (rule upt_add_eq_append) simp
  have from_i: "[i..<i + k] = i # [Suc i..<i + k]"
    using \<open>0 < k\<close> by (intro upt_conv_Cons) simp
  have "[0..<length cs - 2] = [0..<i] @ i # [Suc i..<length cs - 2]"
    unfolding k using upto_i from_i by (simp only:)
  then show ?thesis by (simp add: events_from_def)
qed

lemma events_from_nth:
  assumes "i + 2 < length cs" and "k < length (window_events cs i)"
  shows "events_before cs i + k < length (events_from cs 0)"
    and "events_from cs 0 ! (events_before cs i + k) = window_events cs i ! k"
proof -
  have len: "length (concat (map (window_events cs) [0..<i])) = events_before cs i"
    by (simp add: events_concat_length events_before_def)
  note split = events_from_split [OF assms(1)]
  show "events_before cs i + k < length (events_from cs 0)"
    using assms(2) len by (simp add: split)
  show "events_from cs 0 ! (events_before cs i + k) = window_events cs i ! k"
    using assms(2) len by (simp add: split nth_append)
qed

lemma gapSize_window_events:
  assumes "e \<in> set (window_events cs i)"
  shows "0 < gapSize e"
  using assms
  by (auto simp add: window_events_def bullish_at_def bearish_at_def bullish_event_def
      bearish_event_def split: if_splits)

section \<open>Properties of a single window\<close>

lemma window_events_neither:
  assumes "\<not> bullish_at cs i" and "\<not> bearish_at cs i"
  shows "window_events cs i = []"
  using assms by (simp add: window_events_def)

lemma window_events_exclusive:
  assumes "low (cs ! i) \<le> high (cs ! i)" and "low (cs ! (i + 2)) \<le> high (cs ! (i + 2))"
  shows "\<not> (bullish_at cs i \<and> bearish_at cs i)"
  using assms by (auto simp add: bullish_at_def bearish_at_def)

lemma window_events_agree:
  assumes "i + 2 < length xs" and "unused_prices_differ xs ys"
  shows "window_events xs i = window_events ys i"
proof -
  from assms have len: "length xs = length ys"
    and at: "\<And>j. j < length xs \<Longrightarrow>
        time (xs ! j) = time (ys ! j) \<and>
        Candlestick.volume (xs ! j) = Candlestick.volume (ys ! j) \<and>
        (j + 2 < length xs \<or> 2 \<le> j \<longrightarrow>
           high (xs ! j) = high (ys ! j) \<and> low (xs ! j) = low (ys ! j))"
    by (simp_all add: unused_prices_differ_def)
  from assms(1) have "i < length xs" "i + 1 < length xs" by simp_all
  from at [OF this(1)] at [OF this(2)] at [OF assms(1)] assms(1)
  show ?thesis
    by (simp add: window_events_def bullish_at_def bearish_at_def bullish_event_def
        bearish_event_def)
qed

lemma events_from_agree:
  assumes "unused_prices_differ xs ys"
  shows "events_from xs 0 = events_from ys 0"
proof -
  from assms have len: "length xs = length ys"
    by (simp add: unused_prices_differ_def)
  have "map (window_events xs) [0..<length xs - 2] = map (window_events ys) [0..<length xs - 2]"
  proof (rule map_cong [OF refl])
    fix i assume "i \<in> set [0..<length xs - 2]"
    then have "i + 2 < length xs" by auto
    then show "window_events xs i = window_events ys i"
      using assms by (rule window_events_agree)
  qed
  then have "concat (map (window_events xs) [0..<length xs - 2]) =
      concat (map (window_events ys) [0..<length xs - 2])"
    by (simp only:)
  then show ?thesis by (simp add: events_from_def len)
qed

text \<open>
  The body throws as soon as one of its three indices is outside the array; the loop's
  bound keeps it from being called there.
\<close>

lemma fvg_window_out_of_range:
  assumes "length cs \<le> i + 2"
  shows "fvg_window cs i rs = Inl undefined_read"
  using assms by (simp add: fvg_window_def candle_at_def split: option.splits)

section \<open>The loop on the six-candle test input\<close>

text \<open>
  Unfolding the loop on the input of the test "should detect multiple FVG patterns in
  separate windows" gives three events: besides the windows at 0 and 3, the overlapping
  window at 2 passes the bearish test (\<open>109 < 111\<close>). The test expects the first and the last
  event only.
\<close>

lemma two_windows_sample_loop:
  "fvg_loop two_windows_sample 0 [] =
     Inr [\<lparr>fvgType = bullish, startTime = 1000, endTime = 3000, gapSize = 1, volume = 450\<rparr>,
          \<lparr>fvgType = bearish, startTime = 3000, endTime = 5000, gapSize = 2, volume = 450\<rparr>,
          \<lparr>fvgType = bearish, startTime = 4000, endTime = 6000, gapSize = 2, volume = 390\<rparr>]"
  by (simp add: fvg_loop.simps fvg_window_def candle_at_def two_windows_sample_def)

lemmas sample_eval = events_from_def window_events_def bullish_at_def bearish_at_def
  bullish_event_def bearish_event_def events_before_def qualifying_at_def upt_conv_Cons

section \<open>The claims\<close>

text \<open>
  C1. For every input and every window start \<open>i\<close> with \<open>i + 2 < length\<close>: when the low of
  the third candle is above the high of the first, the call succeeds and its result holds,
  at the position given by the number of events of the earlier windows, the bullish event
  with the first candle's time as start, the third candle's time as end, the gap
  \<open>candle3.low - candle1.high\<close> and the sum of the three volumes.
\<close>

theorem bullish_gap_emits_event:
  assumes "i + 2 < length cs" and "low (cs ! (i + 2)) > high (cs ! i)"
  shows "\<exists>evs. fst (fvgAnalysisAction cs con) =
            \<lparr>isSuccess = True,
             message = (if length cs < 3 then ''Not enough data to perform FVG analysis.''
                        else ''FVG analysis completed successfully.''),
             data = Some evs\<rparr>
          \<and> events_before cs i < length evs
          \<and> evs ! events_before cs i =
              \<lparr>fvgType = bullish, startTime = time (cs ! i), endTime = time (cs ! (i + 2)),
               gapSize = low (cs ! (i + 2)) - high (cs ! i),
               volume = Candlestick.volume (cs ! i) + Candlestick.volume (cs ! (i + 1))
                          + Candlestick.volume (cs ! (i + 2))\<rparr>"
proof -
  from assms(2) have first: "0 < length (window_events cs i)"
    and ev: "window_events cs i ! 0 = bullish_event cs i"
    by (simp_all add: window_events_def bullish_at_def)
  from events_from_nth [OF assms(1) first] ev
  show ?thesis
    by (simp add: fvgAnalysisAction_events bullish_event_def)
qed

theorem bullish_gap_emits_event_witness:
  "0 + 2 < length two_windows_sample
   \<and> low (two_windows_sample ! (0 + 2)) > high (two_windows_sample ! 0)
   \<and> (\<exists>evs. data (fst (fvgAnalysisAction two_windows_sample [])) = Some evs
        \<and> evs ! 0 = \<lparr>fvgType = bullish, startTime = 1000, endTime = 3000, gapSize = 1,
                      volume = 450\<rparr>)"
  using bullish_gap_emits_event [of 0 two_windows_sample "[]"]
  by (auto simp add: two_windows_sample_def events_before_def)

text \<open>
  C2. For every input and every window start \<open>i\<close> with \<open>i + 2 < length\<close>: when the high of
  the third candle is below the low of the first, the call succeeds and its result holds
  the bearish event with the first candle's time as start, the third candle's time as end,
  the gap \<open>candle1.low - candle3.high\<close> and the sum of the three volumes. Its position is
  the number of events of the earlier windows, plus one when the same window also emits a
  bullish event.
\<close>

theorem bearish_gap_emits_event:
  assumes "i + 2 < length cs" and "high (cs ! (i + 2)) < low (cs ! i)"
  shows "\<exists>evs p. fst (fvgAnalysisAction cs con) =
            \<lparr>isSuccess = True,
             message = (if length cs < 3 then ''Not enough data to perform FVG analysis.''
                        else ''FVG analysis completed successfully.''),
             data = Some evs\<rparr>
          \<and> p = events_before cs i + (if low (cs ! (i + 2)) > high (cs ! i) then 1 else 0)
          \<and> p < length evs
          \<and> evs ! p =
              \<lparr>fvgType = bearish, startTime = time (cs ! i), endTime = time (cs ! (i + 2)),
               gapSize = low (cs ! i) - high (cs ! (i + 2)),
               volume = Candlestick.volume (cs ! i) + Candlestick.volume (cs ! (i + 1))
                          + Candlestick.volume (cs ! (i + 2))\<rparr>"
proof -
  define k :: nat where "k = (if low (cs ! (i + 2)) > high (cs ! i) then 1 else 0)"
  from assms(2) have inside: "k < length (window_events cs i)"
    and ev: "window_events cs i ! k = bearish_event cs i"
    by (simp_all add: k_def window_events_def bullish_at_def bearish_at_def)
  from events_from_nth [OF assms(1) inside] ev
  show ?thesis
    by (simp add: fvgAnalysisAction_events bearish_event_def k_def)
qed

theorem bearish_gap_emits_event_witness:
  "2 + 2 < length two_windows_sample
   \<and> high (two_windows_sample ! (2 + 2)) < low (two_windows_sample ! 2)
   \<and> (\<exists>evs. data (fst (fvgAnalysisAction two_windows_sample [])) = Some evs
        \<and> evs ! 1 = \<lparr>fvgType = bearish, startTime = 3000, endTime = 5000, gapSize = 2,
                      volume = 450\<rparr>)"
  using bearish_gap_emits_event [of 2 two_windows_sample "[]"]
  by (auto simp add: two_windows_sample_def events_before_def bullish_at_def bearish_at_def
      upt_conv_Cons)

text \<open>
  C3, as stated, fails: the number of events is not the number of qualifying windows for
  every input. The malformed sample has a single window, which qualifies, and the result
  has two events.
\<close>

theorem event_count_counterexample:
  "data (fst (fvgAnalysisAction degenerate_sample [])) =
     Some [\<lparr>fvgType = bullish, startTime = 1000, endTime = 3000, gapSize = 4, volume = 24\<rparr>,
           \<lparr>fvgType = bearish, startTime = 1000, endTime = 3000, gapSize = 8, volume = 24\<rparr>]
   \<and> [0..<length degenerate_sample - 2] = [0]
   \<and> length (filter (qualifying_at degenerate_sample) [0..<length degenerate_sample - 2]) = 1"
  by (simp add: fvgAnalysisAction_events sample_eval degenerate_sample_def)

text \<open>
  C3, amended. For every input the call succeeds and its events are those of the windows
  in ascending order of the window start index; a window passing neither test contributes
  no event (the loop body leaves the results as they are); the number of events is the
  number of windows passing the bullish test plus the number of windows passing the
  bearish test, which is the number of qualifying windows whenever no window passes both
  tests.
\<close>

theorem event_count_and_order:
  "\<exists>evs. fst (fvgAnalysisAction cs con) =
            \<lparr>isSuccess = True,
             message = (if length cs < 3 then ''Not enough data to perform FVG analysis.''
                        else ''FVG analysis completed successfully.''),
             data = Some evs\<rparr>
     \<and> evs = concat (map (window_events cs) [0..<length cs - 2])
     \<and> length evs = length (filter (bullish_at cs) [0..<length cs - 2])
                      + length (filter (bearish_at cs) [0..<length cs - 2])
     \<and> ((\<forall>i \<in> set [0..<length cs - 2]. \<not> (bullish_at cs i \<and> bearish_at cs i)) \<longrightarrow>
          length evs = length (filter (qualifying_at cs) [0..<length cs - 2]))
     \<and> (\<forall>i \<in> set [0..<length cs - 2]. \<not> bullish_at cs i \<and> \<not> bearish_at cs i \<longrightarrow>
          window_events cs i = [] \<and> (\<forall>results. fvg_window cs i results = Inr results))"
proof (intro exI conjI)
  let ?ws = "[0..<length cs - 2]"
  show "fst (fvgAnalysisAction cs con) =
          \<lparr>isSuccess = True,
           message = (if length cs < 3 then ''Not enough data to perform FVG analysis.''
                      else ''FVG analysis completed successfully.''),
           data = Some (events_from cs 0)\<rparr>"
    by (simp add: fvgAnalysisAction_events)
  show "events_from cs 0 = concat (map (window_events cs) ?ws)"
    by (simp add: events_from_def)
  show "length (events_from cs 0) =
          length (filter (bullish_at cs) ?ws) + length (filter (bearish_at cs) ?ws)"
    by (simp add: events_from_def events_concat_length)
  show "(\<forall>i \<in> set ?ws. \<not> (bullish_at cs i \<and> bearish_at cs i)) \<longrightarrow>
          length (events_from cs 0) = length (filter (qualifying_at cs) ?ws)"
  proof
    assume "\<forall>i \<in> set ?ws. \<not> (bullish_at cs i \<and> bearish_at cs i)"
    then have "length (concat (map (window_events cs) ?ws)) =
        length (filter (qualifying_at cs) ?ws)"
      by (rule events_concat_length_exclusive)
    then show "length (events_from cs 0) = length (filter (qualifying_at cs) ?ws)"
      by (simp add: events_from_def)
  qed
  show "\<forall>i \<in> set ?ws. \<not> bullish_at cs i \<and> \<not> bearish_at cs i \<longrightarrow>
          window_events cs i = [] \<and> (\<forall>results. fvg_window cs i results = Inr results)"
  proof (intro ballI impI)
    fix i assume "i \<in> set ?ws" and "\<not> bullish_at cs i \<and> \<not> bearish_at cs i"
    then have inside: "i + 2 < length cs" and none: "window_events cs i = []"
      by (auto simp add: window_events_neither)
    then show "window_events cs i = [] \<and> (\<forall>results. fvg_window cs i results = Inr results)"
      by (simp add: fvg_window_events)
  qed
qed

theorem event_count_and_order_witness:
  "list_all (\<lambda>i. \<not> (bullish_at two_windows_sample i \<and> bearish_at two_windows_sample i))
     [0..<length two_windows_sample - 2]
   \<and> 1 \<in> set [0..<length two_windows_sample - 2]
   \<and> \<not> bullish_at two_windows_sample 1 \<and> \<not> bearish_at two_windows_sample 1
   \<and> fvg_window two_windows_sample 1 [] = Inr []
   \<and> length (filter (qualifying_at two_windows_sample) [0..<length two_windows_sample - 2]) = 3
   \<and> (\<exists>evs. data (fst (fvgAnalysisAction two_windows_sample [])) = Some evs \<and> length evs = 3)"
proof -
  have excl: "\<forall>i \<in> set [0..<length two_windows_sample - 2].
      \<not> (bullish_at two_windows_sample i \<and> bearish_at two_windows_sample i)"
    by (simp add: two_windows_sample_def bullish_at_def bearish_at_def upt_conv_Cons)
  have one: "1 \<in> set [0..<length two_windows_sample - 2]"
    by (simp add: two_windows_sample_def)
  have neither: "\<not> bullish_at two_windows_sample 1 \<and> \<not> bearish_at two_windows_sample 1"
    by (simp add: two_windows_sample_def bullish_at_def bearish_at_def)
  have count: "length (filter (qualifying_at two_windows_sample)
      [0..<length two_windows_sample - 2]) = 3"
    by (simp add: two_windows_sample_def sample_eval)
  from event_count_and_order [of two_windows_sample "[]"] obtain evs
    where evs: "data (fst (fvgAnalysisAction two_windows_sample [])) = Some evs"
      and len: "(\<forall>i \<in> set [0..<length two_windows_sample - 2].
          \<not> (bullish_at two_windows_sample i \<and> bearish_at two_windows_sample i)) \<longrightarrow>
          length evs = length (filter (qualifying_at two_windows_sample)
            [0..<length two_windows_sample - 2])"
      and none: "\<forall>i \<in> set [0..<length two_windows_sample - 2].
          \<not> bullish_at two_windows_sample i \<and> \<not> bearish_at two_windows_sample i \<longrightarrow>
          window_events two_windows_sample i = [] \<and>
          (\<forall>results. fvg_window two_windows_sample i results = Inr results)"
    by auto
  from len excl count have "length evs = 3" by simp
  moreover from none one neither have "fvg_window two_windows_sample 1 [] = Inr []"
    by blast
  moreover from excl have "list_all
      (\<lambda>i. \<not> (bullish_at two_windows_sample i \<and> bearish_at two_windows_sample i))
      [0..<length two_windows_sample - 2]"
    by (simp only: list_all_iff)
  ultimately show ?thesis using one neither count evs by blast
qed

text \<open>
  C4. For every input with fewer than three candles, the empty one included, the call
  returns a success outcome whose data is the empty sequence.
\<close>

theorem insufficient_data_is_success:
  assumes "length cs < 3"
  shows "fst (fvgAnalysisAction cs con) =
           \<lparr>isSuccess = True, message = ''Not enough data to perform FVG analysis.'',
            data = Some []\<rparr>"
  using assms by (simp add: fvgAnalysisAction_def)

theorem insufficient_data_is_success_witness:
  "length (take 2 bullish_sample) < 3
   \<and> length ([] :: Candlestick list) < 3
   \<and> isSuccess (fst (fvgAnalysisAction (take 2 bullish_sample) []))
   \<and> data (fst (fvgAnalysisAction (take 2 bullish_sample) [])) = Some []
   \<and> isSuccess (fst (fvgAnalysisAction [] []))
   \<and> data (fst (fvgAnalysisAction [] [])) = Some []"
  using insufficient_data_is_success [of "take 2 bullish_sample" "[]"]
    insufficient_data_is_success [of "[]" "[]"]
  by (simp add: bullish_sample_def)

text \<open>
  C5. Both tests are evaluated for every window. In a window whose first and third candles
  have \<open>low \<le> high\<close> the two conditions do not both hold, and the loop body pushes at most
  one event; in the malformed sample both conditions hold for the single window, and the
  body pushes a bullish and a bearish event for it.
\<close>

theorem tests_are_independent:
  "(i + 2 < length cs \<and> low (cs ! i) \<le> high (cs ! i)
      \<and> low (cs ! (i + 2)) \<le> high (cs ! (i + 2)) \<longrightarrow>
      \<not> (low (cs ! (i + 2)) > high (cs ! i) \<and> high (cs ! (i + 2)) < low (cs ! i))
      \<and> (\<exists>new. fvg_window cs i results = Inr (results @ new) \<and> length new \<le> 1))
   \<and> low (degenerate_sample ! 2) > high (degenerate_sample ! 0)
   \<and> high (degenerate_sample ! 2) < low (degenerate_sample ! 0)
   \<and> fvg_window degenerate_sample 0 [] =
       Inr [\<lparr>fvgType = bullish, startTime = 1000, endTime = 3000, gapSize = 4, volume = 24\<rparr>,
            \<lparr>fvgType = bearish, startTime = 1000, endTime = 3000, gapSize = 8, volume = 24\<rparr>]
   \<and> data (fst (fvgAnalysisAction degenerate_sample con)) =
       Some [\<lparr>fvgType = bullish, startTime = 1000, endTime = 3000, gapSize = 4, volume = 24\<rparr>,
             \<lparr>fvgType = bearish, startTime = 1000, endTime = 3000, gapSize = 8, volume = 24\<rparr>]"
proof -
  have "\<exists>new. fvg_window cs i results = Inr (results @ new) \<and> length new \<le> 1"
    if "i + 2 < length cs" and "low (cs ! i) \<le> high (cs ! i)"
      and "low (cs ! (i + 2)) \<le> high (cs ! (i + 2))"
  proof -
    from window_events_exclusive [OF that(2,3)]
    have "length (window_events cs i) \<le> 1"
      by (auto simp add: window_events_def)
    then show ?thesis by (simp add: fvg_window_events [OF that(1)])
  qed
  moreover have "fvg_window degenerate_sample 0 [] =
       Inr [\<lparr>fvgType = bullish, startTime = 1000, endTime = 3000, gapSize = 4, volume = 24\<rparr>,
            \<lparr>fvgType = bearish, startTime = 1000, endTime = 3000, gapSize = 8, volume = 24\<rparr>]"
    by (simp add: fvg_window_def candle_at_def degenerate_sample_def)
  moreover have "data (fst (fvgAnalysisAction degenerate_sample con)) =
       Some [\<lparr>fvgType = bullish, startTime = 1000, endTime = 3000, gapSize = 4, volume = 24\<rparr>,
             \<lparr>fvgType = bearish, startTime = 1000, endTime = 3000, gapSize = 8, volume = 24\<rparr>]"
    by (simp add: fvgAnalysisAction_events sample_eval degenerate_sample_def)
  moreover have "low (degenerate_sample ! 2) > high (degenerate_sample ! 0)"
    "high (degenerate_sample ! 2) < low (degenerate_sample ! 0)"
    by (simp_all add: degenerate_sample_def)
  ultimately show ?thesis by auto
qed

theorem tests_are_independent_witness:
  "0 + 2 < length bearish_sample
   \<and> low (bearish_sample ! 0) \<le> high (bearish_sample ! 0)
   \<and> low (bearish_sample ! (0 + 2)) \<le> high (bearish_sample ! (0 + 2))
   \<and> \<not> low (bearish_sample ! (0 + 2)) > high (bearish_sample ! 0)
   \<and> high (bearish_sample ! (0 + 2)) < low (bearish_sample ! 0)
   \<and> (\<exists>new. fvg_window bearish_sample 0 [] = Inr new \<and> length new = 1)"
proof -
  have hyp: "0 + 2 < length bearish_sample
      \<and> low (bearish_sample ! 0) \<le> high (bearish_sample ! 0)
      \<and> low (bearish_sample ! (0 + 2)) \<le> high (bearish_sample ! (0 + 2))"
    by (simp add: bearish_sample_def)
  have bear: "high (bearish_sample ! (0 + 2)) < low (bearish_sample ! 0)"
    by (simp add: bearish_sample_def)
  from tests_are_independent [of 0 bearish_sample "[]"] hyp
  have excl: "\<not> (low (bearish_sample ! (0 + 2)) > high (bearish_sample ! 0)
      \<and> high (bearish_sample ! (0 + 2)) < low (bearish_sample ! 0))"
    and "\<exists>new. fvg_window bearish_sample 0 [] = Inr ([] @ new) \<and> length new \<le> 1"
    by blast+
  then obtain new where new: "fvg_window bearish_sample 0 [] = Inr new" "length new \<le> 1"
    by auto
  from new(1) have "new \<noteq> []"
    by (auto simp add: fvg_window_def candle_at_def bearish_sample_def)
  with new(2) have "length new = 1" by (cases new) simp_all
  with hyp bear excl new(1) show ?thesis by blast
qed

text \<open>
  C7. For every input, malformed candles included, the loop throws nothing, the call
  returns \<open>isSuccess = True\<close> with a data field, and the \<^verbatim>\<open>catch\<close> clause, the only writer to
  the console, is not entered.
\<close>

theorem analysis_never_fails:
  "isSuccess (fst (fvgAnalysisAction cs con))
   \<and> (\<exists>evs. data (fst (fvgAnalysisAction cs con)) = Some evs)
   \<and> snd (fvgAnalysisAction cs con) = con
   \<and> (\<forall>error. fvg_loop cs 0 [] \<noteq> Inl error)"
  by (simp add: fvgAnalysisAction_events fvg_loop_events)

text \<open>
  C8. The result of a call depends on the input array only: it is the same whatever the
  console holds, a call leaves the console as it found it, and a second call on the same
  input after the first returns the same outcome, field for field.
\<close>

theorem analysis_deterministic:
  "fst (fvgAnalysisAction cs con) = fst (fvgAnalysisAction cs con')
   \<and> (case fvgAnalysisAction cs con of (first_result, con1) \<Rightarrow>
        case fvgAnalysisAction cs con1 of (second_result, con2) \<Rightarrow>
          first_result = second_result \<and> con1 = con \<and> con2 = con)"
  by (simp add: fvgAnalysisAction_events)

text \<open>
  C9. For every input, malformed candles included, every event of the result has a gap
  size strictly greater than zero.
\<close>

theorem gap_size_positive:
  "\<exists>evs. data (fst (fvgAnalysisAction cs con)) = Some evs \<and> (\<forall>e \<in> set evs. 0 < gapSize e)"
proof -
  have "0 < gapSize e" if "e \<in> set (events_from cs 0)" for e
  proof -
    from that obtain i where "e \<in> set (window_events cs i)"
      by (auto simp add: events_from_def)
    then show ?thesis by (rule gapSize_window_events)
  qed
  then show ?thesis by (simp add: fvgAnalysisAction_events)
qed

theorem gap_size_positive_witness:
  "\<exists>evs. data (fst (fvgAnalysisAction degenerate_sample [])) = Some evs
     \<and> length evs = 2 \<and> 0 < gapSize (evs ! 0) \<and> 0 < gapSize (evs ! 1)"
proof -
  from gap_size_positive [of degenerate_sample "[]"] obtain evs
    where evs: "data (fst (fvgAnalysisAction degenerate_sample [])) = Some evs"
      and pos: "\<forall>e \<in> set evs. 0 < gapSize e"
    by blast
  from evs have len: "length evs = 2"
    by (auto simp add: fvgAnalysisAction_events sample_eval degenerate_sample_def)
  then have "evs ! 0 \<in> set evs" "evs ! 1 \<in> set evs" by simp_all
  with pos have "0 < gapSize (evs ! 0)" "0 < gapSize (evs ! 1)" by blast+
  with evs len show ?thesis by blast
qed

text \<open>
  C6, as stated, fails: in an input of four or more candles a middle candle of one window
  is the first or the third candle of another. Lowering the high of the candle at index 1
  of the quiet sample, the middle candle of the window at 0, opens a bullish gap in the
  window at 1, and the outputs differ.
\<close>

theorem middle_prices_counterexample:
  "middle_prices_differ quiet_sample quiet_sample_lowered
   \<and> data (fst (fvgAnalysisAction quiet_sample [])) = Some []
   \<and> data (fst (fvgAnalysisAction quiet_sample_lowered [])) =
       Some [\<lparr>fvgType = bullish, startTime = 2000, endTime = 4000, gapSize = 2, volume = 9\<rparr>]"
proof -
  have "middle_prices_differ quiet_sample quiet_sample_lowered"
    by (simp add: middle_prices_differ_def quiet_sample_def quiet_sample_lowered_def
        All_less_Suc eval_nat_numeral)
  moreover have "data (fst (fvgAnalysisAction quiet_sample [])) = Some []"
    by (simp add: fvgAnalysisAction_events sample_eval quiet_sample_def)
  moreover have "data (fst (fvgAnalysisAction quiet_sample_lowered [])) =
       Some [\<lparr>fvgType = bullish, startTime = 2000, endTime = 4000, gapSize = 2, volume = 9\<rparr>]"
    by (simp add: fvgAnalysisAction_events sample_eval quiet_sample_lowered_def)
  ultimately show ?thesis by blast
qed

text \<open>
  C6, amended. Two inputs of equal length that agree on every time and volume field, and
  on the high and low of every candle that is the first or the third candle of some
  window, yield identical outcomes: the open and close of any candle, and the high and
  low of a candle used in no first or third position, do not influence detection. Within
  one window the middle candle contributes only its volume: the loop body gives the same
  result for two inputs that agree on the window's first and third candle and on the
  volume of its middle candle.
\<close>

theorem unused_prices_do_not_matter:
  "(unused_prices_differ xs ys \<longrightarrow> fvgAnalysisAction xs con = fvgAnalysisAction ys con)
   \<and> (i + 2 < length xs \<and> length ys = length xs
        \<and> ys ! i = xs ! i \<and> ys ! (i + 2) = xs ! (i + 2)
        \<and> Candlestick.volume (ys ! (i + 1)) = Candlestick.volume (xs ! (i + 1)) \<longrightarrow>
      fvg_window ys i results = fvg_window xs i results)"
proof (intro conjI impI)
  assume differ: "unused_prices_differ xs ys"
  then have "length xs = length ys"
    by (simp add: unused_prices_differ_def)
  with events_from_agree [OF differ]
  show "fvgAnalysisAction xs con = fvgAnalysisAction ys con"
    by (simp add: fvgAnalysisAction_events)
next
  assume "i + 2 < length xs \<and> length ys = length xs
        \<and> ys ! i = xs ! i \<and> ys ! (i + 2) = xs ! (i + 2)
        \<and> Candlestick.volume (ys ! (i + 1)) = Candlestick.volume (xs ! (i + 1))"
  then show "fvg_window ys i results = fvg_window xs i results"
    by (simp add: fvg_window_def candle_at_def)
qed

theorem unused_prices_do_not_matter_witness:
  "unused_prices_differ bullish_sample bullish_sample_middle_changed
   \<and> bullish_sample \<noteq> bullish_sample_middle_changed
   \<and> fvgAnalysisAction bullish_sample [] = fvgAnalysisAction bullish_sample_middle_changed []
   \<and> 0 + 2 < length bullish_sample
   \<and> fvg_window bullish_sample_middle_changed 0 [] = fvg_window bullish_sample 0 []"
proof -
  have differ: "unused_prices_differ bullish_sample bullish_sample_middle_changed"
    by (simp add: unused_prices_differ_def bullish_sample_def
        bullish_sample_middle_changed_def All_less_Suc eval_nat_numeral)
  have window: "0 + 2 < length bullish_sample
      \<and> length bullish_sample_middle_changed = length bullish_sample
      \<and> bullish_sample_middle_changed ! 0 = bullish_sample ! 0
      \<and> bullish_sample_middle_changed ! (0 + 2) = bullish_sample ! (0 + 2)
      \<and> Candlestick.volume (bullish_sample_middle_changed ! (0 + 1)) =
          Candlestick.volume (bullish_sample ! (0 + 1))"
    by (simp add: bullish_sample_def bullish_sample_middle_changed_def)
  have "bullish_sample \<noteq> bullish_sample_middle_changed"
    by (simp add: bullish_sample_def bullish_sample_middle_changed_def)
  with differ window
    unused_prices_do_not_matter [of bullish_sample bullish_sample_middle_changed "[]" 0 "[]"]
  show ?thesis by blast
qed

text \<open>
  C10. The output is the concatenation, over the window start indices in ascending order,
  of the window's bullish event (if any) followed by its bearish event (if any). When one
  window passes both tests, its bullish event is in the output immediately before its
  bearish event.
\<close>

theorem bullish_precedes_bearish:
  "(\<exists>evs. data (fst (fvgAnalysisAction cs con)) = Some evs
      \<and> evs = concat (map (\<lambda>i.
            (if low (cs ! (i + 2)) > high (cs ! i) then [bullish_event cs i] else []) @
            (if high (cs ! (i + 2)) < low (cs ! i) then [bearish_event cs i] else []))
          [0..<length cs - 2])
      \<and> (i + 2 < length cs \<and> low (cs ! (i + 2)) > high (cs ! i)
            \<and> high (cs ! (i + 2)) < low (cs ! i) \<longrightarrow>
          events_before cs i + 1 < length evs
          \<and> evs ! events_before cs i = bullish_event cs i
          \<and> fvgType (evs ! events_before cs i) = bullish
          \<and> evs ! (events_before cs i + 1) = bearish_event cs i
          \<and> fvgType (evs ! (events_before cs i + 1)) = bearish))"
proof (intro exI conjI impI)
  show "data (fst (fvgAnalysisAction cs con)) = Some (events_from cs 0)"
    by (simp add: fvgAnalysisAction_events)
  show "events_from cs 0 = concat (map (\<lambda>i.
            (if low (cs ! (i + 2)) > high (cs ! i) then [bullish_event cs i] else []) @
            (if high (cs ! (i + 2)) < low (cs ! i) then [bearish_event cs i] else []))
          [0..<length cs - 2])"
  proof -
    have "window_events cs = (\<lambda>i.
            (if low (cs ! (i + 2)) > high (cs ! i) then [bullish_event cs i] else []) @
            (if high (cs ! (i + 2)) < low (cs ! i) then [bearish_event cs i] else []))"
      by (rule ext) (simp add: window_events_def bullish_at_def bearish_at_def)
    then show ?thesis by (simp only: events_from_def)
  qed
next
  assume both: "i + 2 < length cs \<and> low (cs ! (i + 2)) > high (cs ! i)
            \<and> high (cs ! (i + 2)) < low (cs ! i)"
  then have inside: "i + 2 < length cs"
    and pair: "window_events cs i = [bullish_event cs i, bearish_event cs i]"
    by (simp_all add: window_events_def bullish_at_def bearish_at_def)
  from pair have "0 < length (window_events cs i)" and "1 < length (window_events cs i)"
    by simp_all
  from events_from_nth [OF inside this(1)] events_from_nth [OF inside this(2)]
  show "events_before cs i + 1 < length (events_from cs 0)"
    and b1: "events_from cs 0 ! events_before cs i = bullish_event cs i"
    and b2: "events_from cs 0 ! (events_before cs i + 1) = bearish_event cs i"
    by (simp_all add: pair)
  from b1 show "fvgType (events_from cs 0 ! events_before cs i) = bullish"
    by (simp add: bullish_event_def)
  from b2 show "fvgType (events_from cs 0 ! (events_before cs i + 1)) = bearish"
    by (simp add: bearish_event_def)
qed

theorem bullish_precedes_bearish_witness:
  "0 + 2 < length degenerate_sample
   \<and> low (degenerate_sample ! (0 + 2)) > high (degenerate_sample ! 0)
   \<and> high (degenerate_sample ! (0 + 2)) < low (degenerate_sample ! 0)
   \<and> (\<exists>evs. data (fst (fvgAnalysisAction degenerate_sample [])) = Some evs
        \<and> evs ! 0 = \<lparr>fvgType = bullish, startTime = 1000, endTime = 3000, gapSize = 4,
                      volume = 24\<rparr>
        \<and> evs ! 1 = \<lparr>fvgType = bearish, startTime = 1000, endTime = 3000, gapSize = 8,
                      volume = 24\<rparr>)"
proof -
  have both: "0 + 2 < length degenerate_sample
      \<and> low (degenerate_sample ! (0 + 2)) > high (degenerate_sample ! 0)
      \<and> high (degenerate_sample ! (0 + 2)) < low (degenerate_sample ! 0)"
    by (simp add: degenerate_sample_def)
  have start: "events_before degenerate_sample 0 = 0"
    by (simp add: events_before_def)
  from bullish_precedes_bearish [of degenerate_sample "[]" 0] both obtain evs
    where "data (fst (fvgAnalysisAction degenerate_sample [])) = Some evs"
      and "evs ! events_before degenerate_sample 0 = bullish_event degenerate_sample 0"
      and "evs ! (events_before degenerate_sample 0 + 1) = bearish_event degenerate_sample 0"
    by blast
  then have "data (fst (fvgAnalysisAction degenerate_sample [])) = Some evs
        \<and> evs ! 0 = \<lparr>fvgType = bullish, startTime = 1000, endTime = 3000, gapSize = 4,
                      volume = 24\<rparr>
        \<and> evs ! 1 = \<lparr>fvgType = bearish, startTime = 1000, endTime = 3000, gapSize = 8,
                      volume = 24\<rparr>"
    unfolding start by (simp add: bullish_event_def bearish_event_def degenerate_sample_def)
  with both show ?thesis by blast
qed

end
